theory Spec2Isabelle
  imports Main "HOL-Library.Sublist" "HOL-Library.Word"
begin

section \<open>Strings\<close>

text \<open>
  A JavaScript string is a finite sequence of 16-bit code units. The
  configuration string, the identifiers and the form fields are only compared,
  concatenated and trimmed; they are modelled as \<^typ>\<open>string\<close>, a list of
  8-bit characters read as the code units 0 to 255. The batch name and the
  search term are lower-cased, which depends on code units beyond 255; they are
  modelled as full sequences of 16-bit code units (see the next section).

  \<open>s.startsWith(p)\<close> and \<open>s.includes(t)\<close> compare code units only, so they are
  the prefix and the contiguous-sublist relation on lists.
\<close>

definition startsWith :: "string \<Rightarrow> string \<Rightarrow> bool" where
  "startsWith s p = prefix p s"

definition includes_str :: "string \<Rightarrow> string \<Rightarrow> bool" where
  "includes_str s t = sublist t s"

text \<open>
  \<open>s.trim()\<close> removes white space and line terminators from both ends: below
  code unit 256 these are tab, line feed, vertical tab, form feed, carriage
  return, space and the no-break space.
\<close>

definition isWhiteSpace :: "char \<Rightarrow> bool" where
  "isWhiteSpace c = ((of_char c :: nat) \<in> {9, 10, 11, 12, 13, 32, 160})"

definition trim :: "string \<Rightarrow> string" where
  "trim s = rev (dropWhile isWhiteSpace (rev (dropWhile isWhiteSpace s)))"

section \<open>UTF-16 strings and lower-casing\<close>

type_synonym utf16 = "16 word list"

definition includes_utf16 :: "utf16 \<Rightarrow> utf16 \<Rightarrow> bool" where
  "includes_utf16 s t = sublist t s"

text \<open>A string of code units below 256, written as a literal, as a UTF-16 string.\<close>

definition utf16 :: "string \<Rightarrow> utf16" where
  "utf16 s = map (\<lambda>c. of_nat (of_char c)) s"

text \<open>
  \<open>s.toLowerCase()\<close> is defined by the language standard in three steps: the
  code units are read as code points (a lead surrogate followed by a trail
  surrogate is one code point, every other code unit is a code point of its
  own), the code points are lower-cased by the default case conversion of
  Unicode, and the result is written back as code units.

  The default case conversion maps a code point to its simple lower-case
  mapping, with the two exceptions that the standard's special-casing data
  makes without regard to language: capital sigma (U+03A3) becomes the final
  small sigma (U+03C2) when it is preceded by a cased letter, with only
  case-ignorable characters in between, and not followed by one in the same
  way; and capital I with dot above (U+0130) becomes the two code points
  U+0069 U+0307.

  The character data themselves are tables of the Unicode standard: the simple
  lower-case mapping (the code point itself where it has none) and the
  properties Cased and Case_Ignorable. They are parameters of the model.
\<close>

record unicode =
  simple_lower :: "nat \<Rightarrow> nat"
  cased :: "nat \<Rightarrow> bool"
  case_ignorable :: "nat \<Rightarrow> bool"

definition isLeadSurrogate :: "16 word \<Rightarrow> bool" where
  "isLeadSurrogate u = (0xD800 \<le> unat u \<and> unat u \<le> 0xDBFF)"

definition isTrailSurrogate :: "16 word \<Rightarrow> bool" where
  "isTrailSurrogate u = (0xDC00 \<le> unat u \<and> unat u \<le> 0xDFFF)"

fun stringToCodePoints :: "utf16 \<Rightarrow> nat list" where
  "stringToCodePoints [] = []"
| "stringToCodePoints [u] = [unat u]"
| "stringToCodePoints (u # v # rest) =
     (if isLeadSurrogate u \<and> isTrailSurrogate v
      then (0x10000 + (unat u - 0xD800) * 0x400 + (unat v - 0xDC00)) # stringToCodePoints rest
      else unat u # stringToCodePoints (v # rest))"

definition utf16EncodeCodePoint :: "nat \<Rightarrow> utf16" where
  "utf16EncodeCodePoint cp =
     (if cp \<le> 0xFFFF then [of_nat cp]
      else [of_nat ((cp - 0x10000) div 0x400 + 0xD800),
            of_nat ((cp - 0x10000) mod 0x400 + 0xDC00)])"

definition codePointsToString :: "nat list \<Rightarrow> utf16" where
  "codePointsToString cps = concat (map utf16EncodeCodePoint cps)"

text \<open>
  \<open>reaches_cased U cs\<close>: going through \<open>cs\<close>, a cased letter is met after
  case-ignorable characters only. It is applied to the code points after the
  sigma, and to those before it, nearest first.
\<close>

fun reaches_cased :: "unicode \<Rightarrow> nat list \<Rightarrow> bool" where
  "reaches_cased U [] = False"
| "reaches_cased U (c # cs) = (cased U c \<or> (case_ignorable U c \<and> reaches_cased U cs))"

definition final_sigma :: "unicode \<Rightarrow> nat list \<Rightarrow> nat list \<Rightarrow> bool" where
  "final_sigma U before after = (reaches_cased U before \<and> \<not> reaches_cased U after)"

text \<open>\<open>before\<close> holds the code points already passed, nearest first.\<close>

fun lowercaseCodePoints :: "unicode \<Rightarrow> nat list \<Rightarrow> nat list \<Rightarrow> nat list" where
  "lowercaseCodePoints U before [] = []"
| "lowercaseCodePoints U before (c # after) =
     (if c = 0x3A3 \<and> final_sigma U before after then [0x3C2]
      else if c = 0x130 then [0x69, 0x307]
      else [simple_lower U c]) @ lowercaseCodePoints U (c # before) after"

definition toLowerCase :: "unicode \<Rightarrow> utf16 \<Rightarrow> utf16" where
  "toLowerCase U s = codePointsToString (lowercaseCodePoints U [] (stringToCodePoints s))"

section \<open>The base-URL resolver (client/lib/api.ts)\<close>

text \<open>
  \<open>import.meta.env.VITE_API_BASE_URL\<close> is either undefined (\<open>None\<close>) or a string.
  \<open>!rawBaseUrl\<close> holds for undefined and for the empty string, and for nothing
  else. The regular expression \<open>/^192\.168\./\<close> has no flags: it matches exactly
  the strings that begin with \<open>192.168.\<close>.
\<close>

definition match_192_168 :: "string \<Rightarrow> bool" where
  "match_192_168 s = prefix ''192.168.'' s"

definition getApiBaseUrl :: "string option \<Rightarrow> string" where
  "getApiBaseUrl env =
     (case env of
        None \<Rightarrow> ''http://localhost:3001''
      | Some rawBaseUrl \<Rightarrow>
          if rawBaseUrl = [] then ''http://localhost:3001''
          else if startsWith rawBaseUrl ''http://'' \<or> startsWith rawBaseUrl ''https://''
          then rawBaseUrl
          else if includes_str rawBaseUrl ''localhost'' \<or> match_192_168 rawBaseUrl
          then ''http://'' @ rawBaseUrl @ ''/api''
          else ''https://'' @ rawBaseUrl @ ''/api'')"

text \<open>A configuration string carries a scheme when it begins with one of the two.\<close>

definition has_scheme :: "string \<Rightarrow> bool" where
  "has_scheme s = (startsWith s ''http://'' \<or> startsWith s ''https://'')"

section \<open>The batch management view: data model\<close>

text \<open>
  The interfaces of the page component. Several interfaces of the source have
  fields called \<open>id\<close> and \<open>name\<close>; the record fields carry the interface as a
  prefix (\<open>skill_id\<close> is \<open>Skill.id\<close>, \<open>batch_name\<close> is \<open>Batch.name\<close>, and so on).
\<close>

record Skill =
  skill_id :: string
  skill_name :: string
  skill_description :: string
  skill_category :: string

record Availability =
  availability_id :: string
  day_of_week :: string
  availability_start_time :: string
  availability_end_time :: string

datatype FacultyType = full_time | part_time

record Faculty =
  fac_id :: string
  fac_name :: string
  fac_type :: FacultyType
  fac_skills :: "Skill list"
  isActive :: bool
  availability :: "Availability list"

record Student =
  student_id :: string
  student_name :: string
  admission_number :: string
  phone_number :: string

record Batch =
  batch_id :: string
  batch_name :: utf16
  faculty_id :: string
  student_ids :: "string list"
  start_date :: string
  end_date :: string
  start_time :: string
  end_time :: string
  days_of_week :: "string list"
  skill :: Skill

datatype BatchStatus = Upcoming | active | completed

record BatchFormData =
  name :: string
  description :: string
  startDate :: string
  endDate :: string
  startTime :: string
  endTime :: string
  facultyId :: string
  skillId :: string
  maxStudents :: int
  status :: BatchStatus
  studentIds :: "string list"
  daysOfWeek :: "string list"

text \<open>
  Network traffic. A call of \<open>fetch\<close> is recorded as a request; the body is the
  object handed to \<open>JSON.stringify\<close>.
\<close>

datatype http_method = GET | POST | PUT | DELETE

datatype payload =
    NoBody
  | BatchJson BatchFormData
  | StudentJson string string string

record request =
  req_method :: http_method
  req_url :: string
  req_body :: payload

text \<open>
  What comes back. \<open>await fetch(...)\<close> either rejects (a network error, with
  its message) or yields a response with its \<open>ok\<close> flag; \<open>await response.json()\<close>
  either throws (with its message) or yields the parsed value, which is an
  array or something else.
\<close>

datatype 'a jsvalue = JArray "'a list" | JOther

datatype 'a outcome =
    Rejected string
  | Response bool "string + 'a jsvalue"

text \<open>
  The state of the page: the \<open>useState\<close> cells of \<open>BatchManagement\<close>, those of
  the \<open>BatchDialog\<close> it renders (\<open>dialogSkills\<close> is the dialog's own \<open>skills\<close>
  cell), and the observable effects: the requests issued, the lines written
  with \<open>console.error\<close> and the notifications raised with \<open>toast.error\<close>
  (title and description). A cell written with unchecked response data
  (\<open>setBatches(data)\<close>) holds a parsed value, not necessarily an array.
\<close>

record state =
  batches :: "Batch jsvalue"
  faculties :: "Faculty jsvalue"
  skills :: "Skill list"
  searchTerm :: utf16
  isBatchDialogOpen :: bool
  isStudentListOpen :: bool
  selectedBatch :: "Batch option"
  studentsOfSelectedBatch :: "Student jsvalue"
  allStudents :: "Student jsvalue"
  formData :: BatchFormData
  dialogSkills :: "Skill list"
  isLoading :: bool
  newStudentName :: string
  newStudentAdmissionNumber :: string
  newStudentPhoneNumber :: string
  studentSearch :: string
  requests :: "request list"
  console :: "string list"
  toasts :: "(string \<times> string) list"

definition emptyFormData :: BatchFormData where
  "emptyFormData = \<lparr> name = [], description = [], startDate = [], endDate = [],
     startTime = [], endTime = [], facultyId = [], skillId = [], maxStudents = 30,
     status = Upcoming, studentIds = [], daysOfWeek = [] \<rparr>"

definition initialState :: state where
  "initialState = \<lparr> batches = JArray [], faculties = JArray [], skills = [],
     searchTerm = [], isBatchDialogOpen = False, isStudentListOpen = False,
     selectedBatch = None, studentsOfSelectedBatch = JArray [], allStudents = JArray [],
     formData = emptyFormData, dialogSkills = [], isLoading = False,
     newStudentName = [], newStudentAdmissionNumber = [], newStudentPhoneNumber = [],
     studentSearch = [], requests = [], console = [], toasts = [] \<rparr>"

definition fetch :: "http_method \<Rightarrow> string \<Rightarrow> payload \<Rightarrow> state \<Rightarrow> state" where
  "fetch m u b st =
     st\<lparr>requests := requests st @ [\<lparr> req_method = m, req_url = u, req_body = b \<rparr>]\<rparr>"

definition console_error :: "string \<Rightarrow> state \<Rightarrow> state" where
  "console_error msg st = st\<lparr>console := console st @ [msg]\<rparr>"

definition toast_error :: "string \<Rightarrow> string \<Rightarrow> state \<Rightarrow> state" where
  "toast_error title descr st = st\<lparr>toasts := toasts st @ [(title, descr)]\<rparr>"

section \<open>The batch management view: operations\<close>

text \<open>
  An \<open>async\<close> handler runs synchronously up to its first \<open>await\<close> and is resumed
  when the awaited request settles. Each handler is therefore two functions:
  \<open>_start\<close>, the part that runs at once and issues the request, and \<open>_resume\<close>,
  the continuation, which takes the outcome of the request. \<open>base\<close> is the
  constant \<open>API_BASE_URL\<close>.
\<close>

subsection \<open>Loading the collections\<close>

definition fetchBatches_start :: "string \<Rightarrow> state \<Rightarrow> state" where
  "fetchBatches_start base st = fetch GET (base @ ''/api/batches'') NoBody st"

definition fetchBatches_resume :: "Batch outcome \<Rightarrow> state \<Rightarrow> state" where
  "fetchBatches_resume out st =
     (case out of
        Rejected msg \<Rightarrow> console_error ''Error fetching batches:'' st
      | Response ok (Inl msg) \<Rightarrow> console_error ''Error fetching batches:'' st
      | Response ok (Inr data) \<Rightarrow> st\<lparr>batches := data\<rparr>)"

definition fetchFaculties_start :: "string \<Rightarrow> state \<Rightarrow> state" where
  "fetchFaculties_start base st = fetch GET (base @ ''/api/faculty'') NoBody st"

definition fetchFaculties_resume :: "Faculty outcome \<Rightarrow> state \<Rightarrow> state" where
  "fetchFaculties_resume out st =
     (case out of
        Rejected msg \<Rightarrow> console_error ''Error fetching faculties:'' st
      | Response ok (Inl msg) \<Rightarrow> console_error ''Error fetching faculties:'' st
      | Response ok (Inr data) \<Rightarrow> st\<lparr>faculties := data\<rparr>)"

definition fetchSkills_start :: "string \<Rightarrow> state \<Rightarrow> state" where
  "fetchSkills_start base st = fetch GET (base @ ''/api/skills'') NoBody st"

definition fetchSkills_resume :: "Skill outcome \<Rightarrow> state \<Rightarrow> state" where
  "fetchSkills_resume out st =
     (case out of
        Rejected msg \<Rightarrow> (console_error ''Error fetching skills:'' st)\<lparr>skills := []\<rparr>
      | Response ok (Inl msg) \<Rightarrow> (console_error ''Error fetching skills:'' st)\<lparr>skills := []\<rparr>
      | Response ok (Inr (JArray data)) \<Rightarrow> st\<lparr>skills := data\<rparr>
      | Response ok (Inr JOther) \<Rightarrow> st\<lparr>skills := []\<rparr>)"

definition fetchAllStudents_start :: "string \<Rightarrow> state \<Rightarrow> state" where
  "fetchAllStudents_start base st = fetch GET (base @ ''/api/students'') NoBody st"

definition fetchAllStudents_resume :: "Student outcome \<Rightarrow> state \<Rightarrow> state" where
  "fetchAllStudents_resume out st =
     (case out of
        Rejected msg \<Rightarrow>
          toast_error ''Error fetching students'' (''An error occurred: '' @ msg) st
      | Response True (Inl msg) \<Rightarrow>
          toast_error ''Error fetching students'' (''An error occurred: '' @ msg) st
      | Response True (Inr data) \<Rightarrow> st\<lparr>allStudents := data\<rparr>
      | Response False _ \<Rightarrow>
          toast_error ''Error fetching students''
            ''Could not fetch the list of all students.'' st)"

subsection \<open>Filtering\<close>

text \<open>\<open>U\<close> holds the Unicode tables that \<open>toLowerCase\<close> consults.\<close>

definition filteredBatches :: "unicode \<Rightarrow> Batch list \<Rightarrow> utf16 \<Rightarrow> Batch list" where
  "filteredBatches U bs term =
     filter (\<lambda>batch. includes_utf16 (toLowerCase U (batch_name batch)) (toLowerCase U term)) bs"

subsection \<open>Saving a batch\<close>

definition handleSaveBatch_start :: "string \<Rightarrow> BatchFormData \<Rightarrow> state \<Rightarrow> state" where
  "handleSaveBatch_start base data st =
     (let url = (case selectedBatch st of
                   Some b \<Rightarrow> base @ ''/api/batches/'' @ batch_id b
                 | None \<Rightarrow> base @ ''/api/batches'');
          method = (case selectedBatch st of Some b \<Rightarrow> PUT | None \<Rightarrow> POST)
      in fetch method url (BatchJson data) st)"

definition handleSaveBatch_resume :: "string \<Rightarrow> 'a outcome \<Rightarrow> state \<Rightarrow> state" where
  "handleSaveBatch_resume base out st =
     (case out of
        Response True _ \<Rightarrow>
          (fetchBatches_start base st)\<lparr>isBatchDialogOpen := False, selectedBatch := None\<rparr>
      | Response False _ \<Rightarrow>
          toast_error ''Error saving batch'' ''Could not save the batch.''
            (console_error ''Failed to save batch'' st)
      | Rejected msg \<Rightarrow>
          toast_error ''Error saving batch'' (''An error occurred: '' @ msg)
            (console_error ''Error saving batch:'' st))"

text \<open>
  \<open>handleSubmit\<close> of the dialog: \<open>onSave(formData)\<close> is \<open>handleSaveBatch\<close>, which is
  not awaited, and \<open>onOpenChange(false)\<close> is \<open>setIsBatchDialogOpen(false)\<close>.
\<close>

definition handleSubmit :: "string \<Rightarrow> state \<Rightarrow> state" where
  "handleSubmit base st =
     (handleSaveBatch_start base (formData st) st)\<lparr>isBatchDialogOpen := False\<rparr>"

subsection \<open>Deleting a batch\<close>

text \<open>\<open>confirmed\<close> is the answer of the \<open>confirm\<close> prompt.\<close>

definition handleDeleteBatch_start :: "string \<Rightarrow> string \<Rightarrow> bool \<Rightarrow> state \<Rightarrow> state" where
  "handleDeleteBatch_start base ident confirmed st =
     (if confirmed then fetch DELETE (base @ ''/api/batches/'' @ ident) NoBody st else st)"

definition handleDeleteBatch_resume :: "string \<Rightarrow> 'a outcome \<Rightarrow> state \<Rightarrow> state" where
  "handleDeleteBatch_resume base out st =
     (case out of
        Response True _ \<Rightarrow> fetchBatches_start base st
      | Response False _ \<Rightarrow> console_error ''Failed to delete batch'' st
      | Rejected msg \<Rightarrow> console_error ''Error deleting batch:'' st)"

subsection \<open>The dialog: inline student creation, faculty and skill\<close>

definition handleAddStudent_start :: "string \<Rightarrow> state \<Rightarrow> state" where
  "handleAddStudent_start base st =
     (if trim (newStudentName st) \<noteq> [] \<and> trim (newStudentAdmissionNumber st) \<noteq> []
      then fetch POST (base @ ''/api/students'')
             (StudentJson (newStudentName st) (newStudentAdmissionNumber st)
                (newStudentPhoneNumber st)) st
      else st)"

text \<open>\<open>onStudentAdded\<close> is \<open>fetchAllStudents\<close>.\<close>

definition handleAddStudent_resume :: "string \<Rightarrow> 'a outcome \<Rightarrow> state \<Rightarrow> state" where
  "handleAddStudent_resume base out st =
     (case out of
        Response True _ \<Rightarrow>
          (fetchAllStudents_start base st)\<lparr>newStudentName := [],
             newStudentAdmissionNumber := [], newStudentPhoneNumber := []\<rparr>
      | Response False _ \<Rightarrow> console_error ''Failed to add student'' st
      | Rejected msg \<Rightarrow> console_error ''Error adding student:'' st)"

text \<open>The \<open>onValueChange\<close> handler of the faculty select.\<close>

definition faculty_onValueChange :: "string \<Rightarrow> state \<Rightarrow> state" where
  "faculty_onValueChange v st = st\<lparr>formData := (formData st)\<lparr>facultyId := v, skillId := []\<rparr>\<rparr>"

definition selectedFaculty :: "Faculty list \<Rightarrow> BatchFormData \<Rightarrow> Faculty option" where
  "selectedFaculty fs fd = find (\<lambda>f. fac_id f = facultyId fd) fs"

definition availableSkills :: "Faculty list \<Rightarrow> Skill list \<Rightarrow> BatchFormData \<Rightarrow> Skill list" where
  "availableSkills fs sks fd =
     (case selectedFaculty fs fd of Some f \<Rightarrow> fac_skills f | None \<Rightarrow> sks)"

text \<open>The values offered by the faculty select: the ids of the active faculties.\<close>

definition facultyOptions :: "Faculty list \<Rightarrow> string list" where
  "facultyOptions fs = map fac_id (filter isActive fs)"

subsection \<open>Opening the dialog\<close>

definition handleAddBatch :: "state \<Rightarrow> state" where
  "handleAddBatch st = st\<lparr>selectedBatch := None, isBatchDialogOpen := True\<rparr>"

definition handleEditBatch :: "Batch \<Rightarrow> state \<Rightarrow> state" where
  "handleEditBatch batch st = st\<lparr>selectedBatch := Some batch, isBatchDialogOpen := True\<rparr>"

text \<open>The \<open>DELETE\<close> requests issued so far.\<close>

definition deletes :: "state \<Rightarrow> request list" where
  "deletes st = filter (\<lambda>r. req_method r = DELETE) (requests st)"

subsection \<open>The remaining handlers and effects\<close>

definition handleViewStudents_start :: "string \<Rightarrow> Batch \<Rightarrow> state \<Rightarrow> state" where
  "handleViewStudents_start base batch st =
     fetch GET (base @ ''/api/batches/'' @ batch_id batch @ ''/students'') NoBody
       (st\<lparr>selectedBatch := Some batch\<rparr>)"

definition handleViewStudents_resume :: "Student outcome \<Rightarrow> state \<Rightarrow> state" where
  "handleViewStudents_resume out st =
     (case out of
        Rejected msg \<Rightarrow> console_error ''Error fetching students:'' st
      | Response ok (Inl msg) \<Rightarrow> console_error ''Error fetching students:'' st
      | Response ok (Inr data) \<Rightarrow>
          st\<lparr>studentsOfSelectedBatch := data, isStudentListOpen := True\<rparr>)"

text \<open>The mount effect of the page issues the four loading requests in order.\<close>

definition mount_effect :: "string \<Rightarrow> state \<Rightarrow> state" where
  "mount_effect base st =
     fetchAllStudents_start base (fetchSkills_start base
       (fetchFaculties_start base (fetchBatches_start base st)))"

text \<open>The effect of the dialog that loads the skills whenever the dialog opens.\<close>

definition fetchSkillsData_start :: "string \<Rightarrow> state \<Rightarrow> state" where
  "fetchSkillsData_start base st =
     fetch GET (base @ ''/api/skills'') NoBody (st\<lparr>isLoading := True\<rparr>)"

definition fetchSkillsData_resume :: "Skill outcome \<Rightarrow> state \<Rightarrow> state" where
  "fetchSkillsData_resume out st =
     (case out of
        Rejected msg \<Rightarrow>
          (console_error ''Error fetching skills:'' st)\<lparr>dialogSkills := [], isLoading := False\<rparr>
      | Response ok (Inl msg) \<Rightarrow>
          (console_error ''Error fetching skills:'' st)\<lparr>dialogSkills := [], isLoading := False\<rparr>
      | Response ok (Inr (JArray data)) \<Rightarrow> st\<lparr>dialogSkills := data, isLoading := False\<rparr>
      | Response ok (Inr JOther) \<Rightarrow> st\<lparr>dialogSkills := [], isLoading := False\<rparr>)"

definition toggle :: "string \<Rightarrow> string list \<Rightarrow> string list" where
  "toggle x xs = (if x \<in> set xs then filter (\<lambda>y. y \<noteq> x) xs else xs @ [x])"

definition handleStudentToggle :: "string \<Rightarrow> state \<Rightarrow> state" where
  "handleStudentToggle studentId st =
     st\<lparr>formData := (formData st)\<lparr>studentIds := toggle studentId (studentIds (formData st))\<rparr>\<rparr>"

definition handleDayToggle :: "string \<Rightarrow> state \<Rightarrow> state" where
  "handleDayToggle day st =
     st\<lparr>formData := (formData st)\<lparr>daysOfWeek := toggle day (daysOfWeek (formData st))\<rparr>\<rparr>"

subsection \<open>Runs of the page\<close>

text \<open>
  What can happen to the page, one event at a time: the mount effect, a user
  action bound to a handler in the markup, or the settling of a request that a
  handler awaits. \<open>FormDataSet\<close> stands for every \<open>setFormData\<close> with a computed
  value (typing into a field, the effect that refills the form when the dialog
  opens); the other plain setters are the remaining \<open>Set\<close> events.
\<close>

datatype event =
    Mounted
  | BatchesSettled "Batch outcome"
  | FacultiesSettled "Faculty outcome"
  | SkillsSettled "Skill outcome"
  | AllStudentsSettled "Student outcome"
  | AddBatchClicked
  | EditBatchClicked Batch
  | ViewStudentsClicked Batch
  | ViewStudentsSettled "Student outcome"
  | DeleteBatchClicked string bool
  | DeleteBatchSettled "unit outcome"
  | FormSubmitted
  | SaveBatchSettled "unit outcome"
  | AddStudentClicked
  | AddStudentSettled "unit outcome"
  | DialogOpened
  | DialogSkillsSettled "Skill outcome"
  | FacultyChosen string
  | SkillChosen string
  | StudentToggled string
  | DayToggled string
  | FormDataSet BatchFormData
  | SearchTermSet utf16
  | StudentSearchSet string
  | NewStudentNameSet string
  | NewStudentAdmissionNumberSet string
  | NewStudentPhoneNumberSet string
  | BatchDialogOpenSet bool
  | StudentListOpenSet bool

fun step :: "string \<Rightarrow> event \<Rightarrow> state \<Rightarrow> state" where
  "step base Mounted st = mount_effect base st"
| "step base (BatchesSettled out) st = fetchBatches_resume out st"
| "step base (FacultiesSettled out) st = fetchFaculties_resume out st"
| "step base (SkillsSettled out) st = fetchSkills_resume out st"
| "step base (AllStudentsSettled out) st = fetchAllStudents_resume out st"
| "step base AddBatchClicked st = handleAddBatch st"
| "step base (EditBatchClicked batch) st = handleEditBatch batch st"
| "step base (ViewStudentsClicked batch) st = handleViewStudents_start base batch st"
| "step base (ViewStudentsSettled out) st = handleViewStudents_resume out st"
| "step base (DeleteBatchClicked ident confirmed) st =
     handleDeleteBatch_start base ident confirmed st"
| "step base (DeleteBatchSettled out) st = handleDeleteBatch_resume base out st"
| "step base FormSubmitted st = handleSubmit base st"
| "step base (SaveBatchSettled out) st = handleSaveBatch_resume base out st"
| "step base AddStudentClicked st = handleAddStudent_start base st"
| "step base (AddStudentSettled out) st = handleAddStudent_resume base out st"
| "step base DialogOpened st = fetchSkillsData_start base st"
| "step base (DialogSkillsSettled out) st = fetchSkillsData_resume out st"
| "step base (FacultyChosen v) st = faculty_onValueChange v st"
| "step base (SkillChosen v) st = st\<lparr>formData := (formData st)\<lparr>skillId := v\<rparr>\<rparr>"
| "step base (StudentToggled studentId) st = handleStudentToggle studentId st"
| "step base (DayToggled day) st = handleDayToggle day st"
| "step base (FormDataSet fd) st = st\<lparr>formData := fd\<rparr>"
| "step base (SearchTermSet v) st = st\<lparr>searchTerm := v\<rparr>"
| "step base (StudentSearchSet v) st = st\<lparr>studentSearch := v\<rparr>"
| "step base (NewStudentNameSet v) st = st\<lparr>newStudentName := v\<rparr>"
| "step base (NewStudentAdmissionNumberSet v) st = st\<lparr>newStudentAdmissionNumber := v\<rparr>"
| "step base (NewStudentPhoneNumberSet v) st = st\<lparr>newStudentPhoneNumber := v\<rparr>"
| "step base (BatchDialogOpenSet v) st = st\<lparr>isBatchDialogOpen := v\<rparr>"
| "step base (StudentListOpenSet v) st = st\<lparr>isStudentListOpen := v\<rparr>"

fun run :: "string \<Rightarrow> event list \<Rightarrow> state \<Rightarrow> state" where
  "run base [] st = st"
| "run base (e # es) st = run base es (step base e st)"

text \<open>The ids of the delete clicks of a run whose confirmation was accepted.\<close>

fun confirmed_deletes :: "event list \<Rightarrow> string list" where
  "confirmed_deletes [] = []"
| "confirmed_deletes (DeleteBatchClicked ident confirmed # es) =
     (if confirmed then ident # confirmed_deletes es else confirmed_deletes es)"
| "confirmed_deletes (e # es) = confirmed_deletes es"

definition delete_request :: "string \<Rightarrow> string \<Rightarrow> request" where
  "delete_request base ident =
     \<lparr> req_method = DELETE, req_url = base @ ''/api/batches/'' @ ident, req_body = NoBody \<rparr>"

section \<open>Case-insensitive containment, as the specification words it\<close>

text \<open>
  The specification asks for the batches "whose name contains the term,
  case-insensitively". Read on its own terms: two code units agree up to case
  when they have the same lower-case form; the term occurs in the name when, at
  some position of the name, the term's code units agree one by one, up to
  case, with those of the name.
\<close>

definition eq_ignoring_case :: "unicode \<Rightarrow> 16 word \<Rightarrow> 16 word \<Rightarrow> bool" where
  "eq_ignoring_case U a b = (simple_lower U (unat a) = simple_lower U (unat b))"

fun spec_ci_prefix :: "unicode \<Rightarrow> utf16 \<Rightarrow> utf16 \<Rightarrow> bool" where
  "spec_ci_prefix U [] s = True"
| "spec_ci_prefix U (a # t) [] = False"
| "spec_ci_prefix U (a # t) (b # s) = (eq_ignoring_case U a b \<and> spec_ci_prefix U t s)"

fun spec_ci_contains :: "unicode \<Rightarrow> utf16 \<Rightarrow> utf16 \<Rightarrow> bool" where
  "spec_ci_contains U [] t = (t = [])"
| "spec_ci_contains U (b # s) t = (spec_ci_prefix U t (b # s) \<or> spec_ci_contains U s t)"

text \<open>
  The strings on which lower-casing acts on each code unit alone: no lead
  surrogate, no capital sigma, no capital I with dot above, and the lower-case
  form of each code unit is again one code unit. \<open>lower_unit\<close> is that action.
\<close>

definition unit_context_free :: "unicode \<Rightarrow> 16 word \<Rightarrow> bool" where
  "unit_context_free U u =
     (\<not> isLeadSurrogate u \<and> u \<noteq> 0x3A3 \<and> u \<noteq> 0x130 \<and> simple_lower U (unat u) \<le> 0xFFFF)"

definition context_free :: "unicode \<Rightarrow> utf16 \<Rightarrow> bool" where
  "context_free U s = list_all (unit_context_free U) s"

definition lower_unit :: "unicode \<Rightarrow> 16 word \<Rightarrow> 16 word" where
  "lower_unit U u = of_nat (simple_lower U (unat u))"

text \<open>
  The Unicode tables on the Basic Latin block and on the Greek letters from
  capital alpha to capital omega and from small alpha to small omega. Outside
  these the sample keeps every code point and takes it as neither cased nor
  case-ignorable; it serves the concrete instances below.
\<close>

definition sampleUnicode :: unicode where
  "sampleUnicode = \<lparr>
     simple_lower = (\<lambda>c. if (0x41 \<le> c \<and> c \<le> 0x5A) \<or> (0x391 \<le> c \<and> c \<le> 0x3A9 \<and> c \<noteq> 0x3A2)
                          then c + 32 else c),
     cased = (\<lambda>c. (0x41 \<le> c \<and> c \<le> 0x5A) \<or> (0x61 \<le> c \<and> c \<le> 0x7A) \<or>
                   (0x391 \<le> c \<and> c \<le> 0x3A9 \<and> c \<noteq> 0x3A2) \<or> (0x3B1 \<le> c \<and> c \<le> 0x3C9)),
     case_ignorable = (\<lambda>c. c \<in> {0x27, 0x2E, 0x3A, 0x5E, 0x60}) \<rparr>"

text \<open>Sample data used by the concrete instances below.\<close>

definition mathSkill :: Skill where
  "mathSkill = \<lparr> skill_id = ''Math-id'', skill_name = ''Math'',
     skill_description = [], skill_category = [] \<rparr>"

definition facultyF1 :: Faculty where
  "facultyF1 = \<lparr> fac_id = ''F1'', fac_name = ''Ada'', fac_type = full_time,
     fac_skills = [mathSkill], isActive = True, availability = [] \<rparr>"

definition algebraBatch :: Batch where
  "algebraBatch = \<lparr> batch_id = ''B1'', batch_name = utf16 ''Algebra-1'', faculty_id = ''F1'',
     student_ids = [], start_date = ''2024-01-10'', end_date = ''2024-06-10'',
     start_time = ''09:00'', end_time = ''10:00'',
     days_of_week = [''Monday'', ''Wednesday''], skill = mathSkill \<rparr>"

definition physicsBatch :: Batch where
  "physicsBatch = algebraBatch\<lparr>batch_id := ''B2'', batch_name := utf16 ''Physics''\<rparr>"

text \<open>A batch named capital alpha, capital sigma.\<close>

definition sigmaBatch :: Batch where
  "sigmaBatch = algebraBatch\<lparr>batch_id := ''B3'', batch_name := [0x391, 0x3A3]\<rparr>"

definition algebraForm :: BatchFormData where
  "algebraForm = \<lparr> name = ''Algebra-1'', description = [], startDate = ''2024-01-10'',
     endDate = ''2024-06-10'', startTime = ''09:00'', endTime = ''10:00'',
     facultyId = ''F1'', skillId = ''Math-id'', maxStudents = 30, status = Upcoming,
     studentIds = [], daysOfWeek = [''Monday'', ''Wednesday''] \<rparr>"

definition localBase :: string where
  "localBase = getApiBaseUrl None"

text \<open>
  The create dialog, opened from the initial state and filled in; the edit
  dialog, opened on a batch; a page whose skills have been loaded; the dialog
  with a blank student name typed in.
\<close>

definition createDialogState :: state where
  "createDialogState = (handleAddBatch initialState)\<lparr>formData := algebraForm\<rparr>"

definition editDialogState :: state where
  "editDialogState = (handleEditBatch algebraBatch initialState)\<lparr>formData := algebraForm\<rparr>"

definition loadedSkillsState :: state where
  "loadedSkillsState =
     fetchSkills_resume (Response True (Inr (JArray [mathSkill]))) initialState"

definition blankNameState :: state where
  "blankNameState = (handleAddBatch initialState)\<lparr>newStudentName := '' '',
     newStudentAdmissionNumber := ''A1''\<rparr>"

definition annState :: state where
  "annState = (handleAddBatch initialState)\<lparr>newStudentName := ''Ann'',
     newStudentAdmissionNumber := ''A1''\<rparr>"

section \<open>Resolver properties\<close>

lemma has_scheme_nonempty: "has_scheme s \<Longrightarrow> s \<noteq> []"
  by (auto simp: has_scheme_def startsWith_def)

lemma has_scheme_http: "has_scheme (''http://'' @ s)"
  by (simp add: has_scheme_def startsWith_def)

lemma has_scheme_https: "has_scheme (''https://'' @ s)"
  by (simp add: has_scheme_def startsWith_def)

lemma getApiBaseUrl_has_scheme: "has_scheme (getApiBaseUrl env)"
proof (cases env)
  case None
  then show ?thesis
    by (simp add: getApiBaseUrl_def has_scheme_def startsWith_def)
next
  case (Some raw)
  show ?thesis
  proof (cases "raw = []")
    case True
    with Some show ?thesis
      by (simp add: getApiBaseUrl_def has_scheme_def startsWith_def)
  next
    case ne: False
    show ?thesis
    proof (cases "has_scheme raw")
      case True
      with Some ne show ?thesis
        by (simp add: getApiBaseUrl_def has_scheme_def)
    next
      case False
      with Some ne show ?thesis
        using has_scheme_http [of "raw @ ''/api''"] has_scheme_https [of "raw @ ''/api''"]
        by (simp add: getApiBaseUrl_def has_scheme_def)
    qed
  qed
qed

lemma getApiBaseUrl_scheme_verbatim:
  "has_scheme raw \<Longrightarrow> getApiBaseUrl (Some raw) = raw"
  using has_scheme_nonempty [of raw]
  by (simp add: getApiBaseUrl_def has_scheme_def)

text \<open>
  C3 (as stated). The empty string carries no scheme, contains no \<open>localhost\<close>
  and does not begin with \<open>192.168.\<close>, yet it is not resolved to
  \<open>https://<input>/api\<close>: the first rule of the resolver treats it as unset.
\<close>

theorem C3_empty_string_counterexample:
  "\<not> has_scheme [] \<and> \<not> includes_str [] ''localhost'' \<and> \<not> startsWith [] ''192.168.'' \<and>
   getApiBaseUrl (Some []) = ''http://localhost:3001'' \<and>
   getApiBaseUrl (Some []) \<noteq> ''https://'' @ [] @ ''/api''"
  by (simp add: has_scheme_def includes_str_def startsWith_def getApiBaseUrl_def)

text \<open>
  C3 (amended). For every non-empty configuration string without a scheme, the
  resolver returns \<open>http://<input>/api\<close> when the string contains
  \<open>localhost\<close> or begins with \<open>192.168.\<close>, and \<open>https://<input>/api\<close>
  otherwise.
\<close>

theorem C3_schemeless_resolution:
  assumes "raw \<noteq> []"
    and "\<not> startsWith raw ''http://''" and "\<not> startsWith raw ''https://''"
  shows "getApiBaseUrl (Some raw) =
     (if includes_str raw ''localhost'' \<or> startsWith raw ''192.168.''
      then ''http://'' @ raw @ ''/api'' else ''https://'' @ raw @ ''/api'')"
  using assms by (simp add: getApiBaseUrl_def match_192_168_def startsWith_def)

theorem C3_schemeless_resolution_witness:
  "getApiBaseUrl (Some ''localhost:3001'') = ''http://localhost:3001/api'' \<and>
   getApiBaseUrl (Some ''192.168.1.5:3001'') = ''http://192.168.1.5:3001/api'' \<and>
   getApiBaseUrl (Some ''example.com'') = ''https://example.com/api''"
proof -
  have a: "getApiBaseUrl (Some ''localhost:3001'') = ''http://localhost:3001/api''"
    using C3_schemeless_resolution [of "''localhost:3001''"]
    by (simp add: startsWith_def includes_str_def)
  have b: "getApiBaseUrl (Some ''192.168.1.5:3001'') = ''http://192.168.1.5:3001/api''"
    using C3_schemeless_resolution [of "''192.168.1.5:3001''"]
    by (simp add: startsWith_def includes_str_def)
  have c: "getApiBaseUrl (Some ''example.com'') = ''https://example.com/api''"
    using C3_schemeless_resolution [of "''example.com''"]
    by (simp add: startsWith_def includes_str_def sublist_Cons_right)
  from a b c show ?thesis by simp
qed

text \<open>
  C9. Every configuration string that begins with \<open>http://\<close> or \<open>https://\<close> is
  returned unchanged: nothing is appended, whatever else the string contains.
\<close>

theorem C9_scheme_returned_unchanged:
  "startsWith raw ''http://'' \<or> startsWith raw ''https://'' \<Longrightarrow>
     getApiBaseUrl (Some raw) = raw"
  using getApiBaseUrl_scheme_verbatim [of raw] by (simp add: has_scheme_def)

theorem C9_scheme_returned_unchanged_witness:
  "(startsWith ''http://localhost:8080'' ''http://'' \<or>
    startsWith ''http://localhost:8080'' ''https://'') \<and>
   getApiBaseUrl (Some ''http://localhost:8080'') = ''http://localhost:8080'' \<and>
   includes_str ''http://localhost:8080'' ''localhost''"
proof -
  have h: "startsWith ''http://localhost:8080'' ''http://'' \<or>
           startsWith ''http://localhost:8080'' ''https://''"
    by (simp add: startsWith_def)
  have "includes_str ''http://localhost:8080'' ''localhost''"
    by (simp add: includes_str_def sublist_Cons_right)
  then show ?thesis
    using h C9_scheme_returned_unchanged [OF h] by simp
qed

text \<open>
  C10. Whatever the configuration (unset, empty or any string), the resolved
  base URL begins with \<open>http://\<close> or \<open>https://\<close>, and resolving the result
  again returns it unchanged.
\<close>

theorem C10_output_has_scheme_idempotent:
  "(startsWith (getApiBaseUrl env) ''http://'' \<or> startsWith (getApiBaseUrl env) ''https://'') \<and>
   getApiBaseUrl (Some (getApiBaseUrl env)) = getApiBaseUrl env"
  using getApiBaseUrl_has_scheme [of env]
    getApiBaseUrl_scheme_verbatim [of "getApiBaseUrl env"]
  by (simp add: has_scheme_def)

section \<open>Filtering\<close>

lemmas lower_defs = toLowerCase_def codePointsToString_def utf16EncodeCodePoint_def
  final_sigma_def sampleUnicode_def isLeadSurrogate_def isTrailSurrogate_def utf16_def

lemma stringToCodePoints_plain:
  "list_all (\<lambda>u. \<not> isLeadSurrogate u) s \<Longrightarrow> stringToCodePoints s = map unat s"
  by (induction s rule: stringToCodePoints.induct) simp_all

lemma lowercaseCodePoints_plain:
  "list_all (\<lambda>c. c \<noteq> 0x3A3 \<and> c \<noteq> 0x130) cs \<Longrightarrow> lowercaseCodePoints U before cs = map (simple_lower U) cs"
  by (induction cs arbitrary: before) simp_all

lemma codePointsToString_plain:
  "list_all (\<lambda>c. c \<le> 0xFFFF) cs \<Longrightarrow> codePointsToString cs = map of_nat cs"
  by (induction cs) (simp_all add: codePointsToString_def utf16EncodeCodePoint_def)


lemma unat_eq_capital_sigma: "unat (u :: 16 word) = 931 \<longleftrightarrow> u = 931"
proof
  assume "unat u = 931"
  then have "(of_nat (unat u) :: 16 word) = of_nat 931" by simp
  then show "u = 931" by simp
next
  assume "u = 931" then show "unat u = 931" by simp
qed

lemma unat_eq_dotted_I: "unat (u :: 16 word) = 304 \<longleftrightarrow> u = 304"
proof
  assume "unat u = 304"
  then have "(of_nat (unat u) :: 16 word) = of_nat 304" by simp
  then show "u = 304" by simp
next
  assume "u = 304" then show "unat u = 304" by simp
qed

lemma toLowerCase_context_free:
  assumes "context_free U s"
  shows "toLowerCase U s = map (lower_unit U) s"
proof -
  from assms have a: "list_all (\<lambda>u. \<not> isLeadSurrogate u) s"
    by (simp add: context_free_def unit_context_free_def list_all_iff)
  from assms have b: "list_all (\<lambda>c. c \<noteq> 0x3A3 \<and> c \<noteq> 0x130) (map unat s)"
    by (simp add: context_free_def unit_context_free_def list_all_iff unat_eq_capital_sigma unat_eq_dotted_I)
  from assms have c: "list_all (\<lambda>c. c \<le> 0xFFFF) (map (simple_lower U) (map unat s))"
    by (simp add: context_free_def unit_context_free_def list_all_iff)
  have "toLowerCase U s = codePointsToString (lowercaseCodePoints U [] (map unat s))"
    by (simp add: toLowerCase_def stringToCodePoints_plain [OF a])
  also have "\<dots> = codePointsToString (map (simple_lower U) (map unat s))"
    by (simp only: lowercaseCodePoints_plain [OF b])
  also have "\<dots> = map of_nat (map (simple_lower U) (map unat s))"
    by (rule codePointsToString_plain [OF c])
  also have "\<dots> = map (lower_unit U) s"
    by (simp add: lower_unit_def)
  finally show ?thesis .
qed

lemma lower_unit_eq_iff:
  "unit_context_free U a \<Longrightarrow> unit_context_free U b \<Longrightarrow>
   lower_unit U a = lower_unit U b \<longleftrightarrow> simple_lower U (unat a) = simple_lower U (unat b)"
  by (simp add: lower_unit_def unit_context_free_def word_of_nat_eq_iff take_bit_nat_eq_self)


text \<open>
  The lower-casing at work: a sigma that is not final, one that is final across
  an apostrophe, capital I with dot above, and a surrogate pair, which is read
  as one code point and written back.
\<close>

lemma toLowerCase_samples:
  "toLowerCase sampleUnicode [0x3A3, 0x391] = [0x3C3, 0x3B1]"
  "toLowerCase sampleUnicode [0x391, 0x3A3, 0x391] = [0x3B1, 0x3C3, 0x3B1]"
  "toLowerCase sampleUnicode [0x391, 0x27, 0x3A3] = [0x3B1, 0x27, 0x3C2]"
  "toLowerCase sampleUnicode [0x130] = [0x69, 0x307]"
  "toLowerCase sampleUnicode [0xD801, 0xDC00, 0x41] = [0xD801, 0xDC00, 0x61]"
  by (simp_all add: lower_defs)

text \<open>
  The recursive reading of containment agrees with the direct one: some
  contiguous part of the name matches the term, code unit by code unit, up to
  case.
\<close>

lemma spec_ci_prefix_iff:
  "context_free U t \<Longrightarrow> context_free U s \<Longrightarrow>
   spec_ci_prefix U t s \<longleftrightarrow> prefix (map (lower_unit U) t) (map (lower_unit U) s)"
  by (induction U t s rule: spec_ci_prefix.induct)
     (simp_all add: context_free_def eq_ignoring_case_def lower_unit_eq_iff)

lemma spec_ci_contains_iff:
  "context_free U t \<Longrightarrow> context_free U s \<Longrightarrow>
   spec_ci_contains U s t \<longleftrightarrow> includes_utf16 (toLowerCase U s) (toLowerCase U t)"
proof (induction s)
  case Nil
  then show ?case by (simp add: includes_utf16_def toLowerCase_context_free)
next
  case (Cons b s)
  then have cf: "context_free U s" by (simp add: context_free_def)
  have "includes_utf16 (toLowerCase U (b # s)) (toLowerCase U t) \<longleftrightarrow>
        prefix (map (lower_unit U) t) (map (lower_unit U) (b # s)) \<or>
        includes_utf16 (toLowerCase U s) (toLowerCase U t)"
    using Cons.prems cf
    by (simp add: includes_utf16_def toLowerCase_context_free sublist_Cons_right)
  with Cons cf show ?case by (simp add: spec_ci_prefix_iff)
qed

lemma spec_ci_prefix_decomp:
  "spec_ci_prefix U t s \<longleftrightarrow> (\<exists>mid post. s = mid @ post \<and> list_all2 (eq_ignoring_case U) t mid)"
proof (induction U t s rule: spec_ci_prefix.induct)
  case (1 U s)
  show ?case by simp
next
  case (2 U a t)
  show ?case by simp
next
  case (3 U a t b s)
  show ?case
  proof
    assume "spec_ci_prefix U (a # t) (b # s)"
    with 3 obtain mid post where "eq_ignoring_case U a b" "s = mid @ post"
        "list_all2 (eq_ignoring_case U) t mid"
      by auto
    then have "b # s = (b # mid) @ post \<and> list_all2 (eq_ignoring_case U) (a # t) (b # mid)"
      by simp
    then show "\<exists>mid post. b # s = mid @ post \<and> list_all2 (eq_ignoring_case U) (a # t) mid"
      by blast
  next
    assume "\<exists>mid post. b # s = mid @ post \<and> list_all2 (eq_ignoring_case U) (a # t) mid"
    then obtain mid post where m: "b # s = mid @ post"
        "list_all2 (eq_ignoring_case U) (a # t) mid"
      by blast
    then obtain c mid' where mid: "mid = c # mid'" "eq_ignoring_case U a c"
        "list_all2 (eq_ignoring_case U) t mid'"
      by (auto simp: list_all2_Cons1)
    with m have "c = b" "s = mid' @ post" by auto
    with mid 3 show "spec_ci_prefix U (a # t) (b # s)" by auto
  qed
qed

lemma spec_ci_contains_suffix:
  "spec_ci_contains U s t \<longleftrightarrow> (\<exists>pre rest. s = pre @ rest \<and> spec_ci_prefix U t rest)"
proof (induction s)
  case Nil
  show ?case by (cases t) simp_all
next
  case step: (Cons b s)
  show ?case
  proof
    assume "spec_ci_contains U (b # s) t"
    then have "spec_ci_prefix U t (b # s) \<or> spec_ci_contains U s t" by simp
    then show "\<exists>pre rest. b # s = pre @ rest \<and> spec_ci_prefix U t rest"
    proof
      assume "spec_ci_prefix U t (b # s)"
      then have "b # s = [] @ (b # s) \<and> spec_ci_prefix U t (b # s)" by simp
      then show ?thesis by blast
    next
      assume "spec_ci_contains U s t"
      with step obtain pre rest where "s = pre @ rest" "spec_ci_prefix U t rest" by blast
      then have "b # s = (b # pre) @ rest \<and> spec_ci_prefix U t rest" by simp
      then show ?thesis by blast
    qed
  next
    assume "\<exists>pre rest. b # s = pre @ rest \<and> spec_ci_prefix U t rest"
    then obtain pre rest where pr: "b # s = pre @ rest" "spec_ci_prefix U t rest" by blast
    show "spec_ci_contains U (b # s) t"
    proof (cases pre)
      case Nil
      with pr have "spec_ci_prefix U t (b # s)" by simp
      then show ?thesis by simp
    next
      case (Cons c pre')
      with pr have "s = pre' @ rest" by simp
      with pr step have "spec_ci_contains U s t" by blast
      then show ?thesis by simp
    qed
  qed
qed

lemma spec_ci_contains_decomp:
  "spec_ci_contains U s t \<longleftrightarrow>
     (\<exists>pre mid post. s = pre @ mid @ post \<and> list_all2 (eq_ignoring_case U) t mid)"
  by (auto simp: spec_ci_contains_suffix spec_ci_prefix_decomp)


text \<open>
  C4 (as stated). The batch is named capital alpha, capital sigma, and the
  search term is capital sigma. The name contains the term, even letter for
  letter; but the sigma of the name is final and is lower-cased to the final
  small sigma, the term to the plain small sigma, and the filter drops the
  batch.
\<close>

theorem C4_final_sigma_counterexample:
  "includes_utf16 (batch_name sigmaBatch) [0x3A3] \<and>
   spec_ci_contains sampleUnicode (batch_name sigmaBatch) [0x3A3] \<and>
   toLowerCase sampleUnicode (batch_name sigmaBatch) = [0x3B1, 0x3C2] \<and>
   toLowerCase sampleUnicode [0x3A3] = [0x3C3] \<and>
   filteredBatches sampleUnicode [sigmaBatch] [0x3A3] = []"
proof -
  have n: "batch_name sigmaBatch = [0x391, 0x3A3]"
    by (simp add: sigmaBatch_def)
  have a: "includes_utf16 [0x391, 0x3A3] [0x3A3]"
    by (simp add: includes_utf16_def sublist_Cons_right)
  have b: "spec_ci_contains sampleUnicode [0x391, 0x3A3] [0x3A3]"
    by (simp add: eq_ignoring_case_def sampleUnicode_def)
  have c: "toLowerCase sampleUnicode [0x391, 0x3A3] = [0x3B1, 0x3C2]"
    by (simp add: lower_defs)
  have d: "toLowerCase sampleUnicode [0x3A3] = [0x3C3]"
    by (simp add: lower_defs)
  have e: "\<not> includes_utf16 [0x3B1, 0x3C2] [0x3C3]"
    by (simp add: includes_utf16_def sublist_Cons_right)
  from a b c d e show ?thesis
    by (simp add: n filteredBatches_def)
qed

text \<open>
  C4 (amended). For every search term and every batch list, the filtered list
  is a subsequence of the full list, and it is the full list when the term is
  empty. When the term and the batch names are strings on which lower-casing
  acts on each code unit alone (no lead surrogate, no capital sigma, no capital
  I with dot above), the filtered list consists of exactly the batches whose
  name contains the term case-insensitively, in the order of the full list.
\<close>

theorem C4_filteredBatches_context_free:
  "subseq (filteredBatches U bs term) bs \<and>
   filteredBatches U bs [] = bs \<and>
   (context_free U term \<and> (\<forall>b \<in> set bs. context_free U (batch_name b)) \<longrightarrow>
      filteredBatches U bs term = filter (\<lambda>b. spec_ci_contains U (batch_name b) term) bs \<and>
      set (filteredBatches U bs term) = {b \<in> set bs. spec_ci_contains U (batch_name b) term})"
proof -
  have a: "subseq (filteredBatches U bs term) bs"
    by (simp add: filteredBatches_def)
  have b: "filteredBatches U bs [] = bs"
    by (simp add: filteredBatches_def includes_utf16_def toLowerCase_def codePointsToString_def)
  have c: "filteredBatches U bs term = filter (\<lambda>b. spec_ci_contains U (batch_name b) term) bs"
    if "context_free U term" "\<forall>b \<in> set bs. context_free U (batch_name b)"
    unfolding filteredBatches_def
    by (rule filter_cong [OF refl]) (simp add: spec_ci_contains_iff that)
  from a b c show ?thesis by auto
qed

theorem C4_filteredBatches_context_free_witness:
  "context_free sampleUnicode (utf16 ''ALG'') \<and>
   context_free sampleUnicode (batch_name algebraBatch) \<and>
   context_free sampleUnicode (batch_name physicsBatch) \<and>
   filteredBatches sampleUnicode [algebraBatch, physicsBatch] (utf16 ''ALG'') = [algebraBatch] \<and>
   filteredBatches sampleUnicode [algebraBatch, physicsBatch] [] = [algebraBatch, physicsBatch]"
proof -
  have t: "context_free sampleUnicode (utf16 ''ALG'')"
    by (simp add: context_free_def unit_context_free_def isLeadSurrogate_def sampleUnicode_def utf16_def)
  have n: "context_free sampleUnicode (batch_name algebraBatch)"
      "context_free sampleUnicode (batch_name physicsBatch)"
    by (simp_all add: context_free_def unit_context_free_def isLeadSurrogate_def sampleUnicode_def
        utf16_def algebraBatch_def physicsBatch_def)
  have a: "spec_ci_contains sampleUnicode (batch_name algebraBatch) (utf16 ''ALG'')"
    by (simp add: eq_ignoring_case_def sampleUnicode_def utf16_def algebraBatch_def)
  have b: "\<not> spec_ci_contains sampleUnicode (batch_name physicsBatch) (utf16 ''ALG'')"
    by (simp add: eq_ignoring_case_def sampleUnicode_def utf16_def algebraBatch_def physicsBatch_def)
  from t n a b show ?thesis
    using C4_filteredBatches_context_free
      [of sampleUnicode "[algebraBatch, physicsBatch]" "utf16 ''ALG''"]
    by simp
qed
section \<open>Saving a batch\<close>

lemmas effect_defs = fetch_def console_error_def toast_error_def

lemma handleSubmit_closes: "isBatchDialogOpen (handleSubmit base st) = False"
  by (simp add: handleSubmit_def)

lemma handleSaveBatch_resume_failure_open:
  "isBatchDialogOpen (handleSaveBatch_resume base (Response False r) st) = isBatchDialogOpen st"
  "isBatchDialogOpen (handleSaveBatch_resume base (Rejected msg) st) = isBatchDialogOpen st"
  by (simp_all add: handleSaveBatch_resume_def effect_defs)

text \<open>
  C1 (the code at the failing input). The create dialog is open and filled in;
  the form is submitted and the save request fails, by a non-success status or
  by a network error. The error notification is raised, but the dialog is
  closed: \<open>handleSubmit\<close> closes it as soon as the request has been issued, and
  the failure branches of \<open>handleSaveBatch\<close> do not reopen it.
\<close>

theorem C1_failed_save_closes_dialog:
  "isBatchDialogOpen createDialogState \<and>
   \<not> isBatchDialogOpen (handleSubmit localBase createDialogState) \<and>
   \<not> isBatchDialogOpen
       (handleSaveBatch_resume localBase (Response False r) (handleSubmit localBase createDialogState)) \<and>
   toasts (handleSaveBatch_resume localBase (Response False r) (handleSubmit localBase createDialogState))
     = [(''Error saving batch'', ''Could not save the batch.'')] \<and>
   \<not> isBatchDialogOpen
       (handleSaveBatch_resume localBase (Rejected msg) (handleSubmit localBase createDialogState)) \<and>
   toasts (handleSaveBatch_resume localBase (Rejected msg) (handleSubmit localBase createDialogState))
     = [(''Error saving batch'', ''An error occurred: '' @ msg)]"
proof -
  have opened: "isBatchDialogOpen createDialogState"
    by (simp add: createDialogState_def handleAddBatch_def)
  have quiet: "toasts (handleSubmit localBase createDialogState) = []"
    by (simp add: handleSubmit_def handleSaveBatch_start_def effect_defs Let_def
        createDialogState_def handleAddBatch_def initialState_def)
  have t1: "toasts (handleSaveBatch_resume localBase (Response False r)
              (handleSubmit localBase createDialogState))
            = [(''Error saving batch'', ''Could not save the batch.'')]"
    using quiet by (simp add: handleSaveBatch_resume_def effect_defs)
  have t2: "toasts (handleSaveBatch_resume localBase (Rejected msg)
              (handleSubmit localBase createDialogState))
            = [(''Error saving batch'', ''An error occurred: '' @ msg)]"
    using quiet by (simp add: handleSaveBatch_resume_def effect_defs)
  from opened t1 t2 show ?thesis
    by (simp add: handleSaveBatch_resume_failure_open handleSubmit_closes)
qed

text \<open>
  C5. Submitting the form issues exactly one request carrying the form's
  current values: a \<open>POST\<close> to the batch endpoint when no batch is selected, a
  \<open>PUT\<close> to the batch endpoint followed by the selected batch's id otherwise.
  When the request succeeds the dialog is closed, the selection is cleared and
  the batch list is fetched again. This holds whatever the form contains, so in
  particular when the required fields are populated.
\<close>

theorem C5_submit_issues_one_request:
  "(selectedBatch st = None \<longrightarrow>
      requests (handleSubmit base st) = requests st @
        [\<lparr> req_method = POST, req_url = base @ ''/api/batches'',
           req_body = BatchJson (formData st) \<rparr>]) \<and>
   (selectedBatch st = Some b \<longrightarrow>
      requests (handleSubmit base st) = requests st @
        [\<lparr> req_method = PUT, req_url = base @ ''/api/batches/'' @ batch_id b,
           req_body = BatchJson (formData st) \<rparr>]) \<and>
   \<not> isBatchDialogOpen (handleSaveBatch_resume base (Response True r) (handleSubmit base st)) \<and>
   selectedBatch (handleSaveBatch_resume base (Response True r) (handleSubmit base st)) = None \<and>
   requests (handleSaveBatch_resume base (Response True r) (handleSubmit base st)) =
     requests (handleSubmit base st) @
       [\<lparr> req_method = GET, req_url = base @ ''/api/batches'', req_body = NoBody \<rparr>]"
proof -
  have post: "selectedBatch st = None \<longrightarrow>
      requests (handleSubmit base st) = requests st @
        [\<lparr> req_method = POST, req_url = base @ ''/api/batches'',
           req_body = BatchJson (formData st) \<rparr>]"
    by (simp add: handleSubmit_def handleSaveBatch_start_def fetch_def)
  have put: "selectedBatch st = Some b \<longrightarrow>
      requests (handleSubmit base st) = requests st @
        [\<lparr> req_method = PUT, req_url = base @ ''/api/batches/'' @ batch_id b,
           req_body = BatchJson (formData st) \<rparr>]"
    by (simp add: handleSubmit_def handleSaveBatch_start_def fetch_def)
  have ok: "\<not> isBatchDialogOpen (handleSaveBatch_resume base (Response True r) st')"
      "selectedBatch (handleSaveBatch_resume base (Response True r) st') = None"
      "requests (handleSaveBatch_resume base (Response True r) st') = requests st' @
         [\<lparr> req_method = GET, req_url = base @ ''/api/batches'', req_body = NoBody \<rparr>]"
    for st'
    by (simp_all add: handleSaveBatch_resume_def fetchBatches_start_def fetch_def)
  from post put ok show ?thesis by blast
qed

theorem C5_submit_issues_one_request_witness:
  "selectedBatch createDialogState = None \<and>
   requests (handleSubmit localBase createDialogState) =
     [\<lparr> req_method = POST, req_url = ''http://localhost:3001/api/batches'',
        req_body = BatchJson algebraForm \<rparr>] \<and>
   selectedBatch editDialogState = Some algebraBatch \<and>
   requests (handleSubmit localBase editDialogState) =
     [\<lparr> req_method = PUT, req_url = ''http://localhost:3001/api/batches/B1'',
        req_body = BatchJson algebraForm \<rparr>]"
proof -
  have c: "selectedBatch createDialogState = None" "requests createDialogState = []"
      "formData createDialogState = algebraForm"
    by (simp_all add: createDialogState_def handleAddBatch_def initialState_def)
  have e: "selectedBatch editDialogState = Some algebraBatch" "requests editDialogState = []"
      "formData editDialogState = algebraForm"
    by (simp_all add: editDialogState_def handleEditBatch_def initialState_def)
  have b: "localBase = ''http://localhost:3001''" "batch_id algebraBatch = ''B1''"
    by (simp_all add: localBase_def getApiBaseUrl_def algebraBatch_def)
  show ?thesis
    using C5_submit_issues_one_request [of createDialogState localBase algebraBatch "Inl [] :: string + unit jsvalue"]
      C5_submit_issues_one_request [of editDialogState localBase algebraBatch "Inl [] :: string + unit jsvalue"]
    by (simp add: c e b)
qed

section \<open>Deleting a batch\<close>

lemma deletes_fetch:
  "deletes (fetch m u b st) = deletes st @ (if m = DELETE then
     [\<lparr> req_method = m, req_url = u, req_body = b \<rparr>] else [])"
  by (simp add: deletes_def fetch_def)

lemma deletes_effects [simp]:
  "deletes (console_error msg st) = deletes st"
  "deletes (toast_error title descr st) = deletes st"
  by (simp_all add: deletes_def console_error_def toast_error_def)

lemma deletes_loading:
  "deletes (fetchBatches_start base st) = deletes st"
  "deletes (fetchFaculties_start base st) = deletes st"
  "deletes (fetchSkills_start base st) = deletes st"
  "deletes (fetchAllStudents_start base st) = deletes st"
  by (simp_all add: fetchBatches_start_def fetchFaculties_start_def fetchSkills_start_def
      fetchAllStudents_start_def deletes_fetch)

lemma deletes_loaded:
  "deletes (fetchBatches_resume ob st) = deletes st"
  "deletes (fetchFaculties_resume of' st) = deletes st"
  "deletes (fetchSkills_resume os st) = deletes st"
  "deletes (fetchAllStudents_resume oa st) = deletes st"
  by (simp_all add: fetchBatches_resume_def fetchFaculties_resume_def fetchSkills_resume_def
      fetchAllStudents_resume_def deletes_def effect_defs
      split: outcome.splits sum.splits jsvalue.splits bool.splits)

lemma deletes_save:
  "deletes (handleSaveBatch_start base data st) = deletes st"
  "deletes (handleSubmit base st) = deletes st"
  "deletes (handleSaveBatch_resume base out st) = deletes st"
  by (simp_all add: handleSaveBatch_start_def handleSubmit_def handleSaveBatch_resume_def
      fetchBatches_start_def deletes_def effect_defs
      split: option.splits outcome.splits bool.splits)

lemma deletes_dialog:
  "deletes (handleAddStudent_start base st) = deletes st"
  "deletes (handleAddStudent_resume base out st) = deletes st"
  "deletes (faculty_onValueChange v st) = deletes st"
  "deletes (handleAddBatch st) = deletes st"
  "deletes (handleEditBatch batch st) = deletes st"
  "deletes (handleDeleteBatch_resume base out st) = deletes st"
  by (simp_all add: handleAddStudent_start_def handleAddStudent_resume_def
      faculty_onValueChange_def handleAddBatch_def handleEditBatch_def
      handleDeleteBatch_resume_def fetchAllStudents_start_def fetchBatches_start_def
      deletes_def effect_defs split: outcome.splits bool.splits)

lemma deletes_mount_effect:
  "deletes (mount_effect base st) = deletes st"
  by (simp add: mount_effect_def deletes_loading)

lemma deletes_remaining:
  "deletes (handleViewStudents_start base batch st) = deletes st"
  "deletes (handleViewStudents_resume oa st) = deletes st"
  "deletes (fetchSkillsData_start base st) = deletes st"
  "deletes (fetchSkillsData_resume os st) = deletes st"
  "deletes (handleStudentToggle studentId st) = deletes st"
  "deletes (handleDayToggle day st) = deletes st"
  by (simp_all add: handleViewStudents_start_def handleViewStudents_resume_def
      fetchSkillsData_start_def fetchSkillsData_resume_def
      handleStudentToggle_def handleDayToggle_def
      deletes_def effect_defs split: outcome.splits sum.splits jsvalue.splits)

lemma deletes_setters:
  "deletes (st\<lparr>formData := fd\<rparr>) = deletes st"
  "deletes (st\<lparr>searchTerm := w\<rparr>) = deletes st"
  "deletes (st\<lparr>studentSearch := v\<rparr>) = deletes st"
  "deletes (st\<lparr>newStudentName := v\<rparr>) = deletes st"
  "deletes (st\<lparr>newStudentAdmissionNumber := v\<rparr>) = deletes st"
  "deletes (st\<lparr>newStudentPhoneNumber := v\<rparr>) = deletes st"
  "deletes (st\<lparr>isBatchDialogOpen := b\<rparr>) = deletes st"
  "deletes (st\<lparr>isStudentListOpen := b\<rparr>) = deletes st"
  by (simp_all add: deletes_def)

lemma deletes_handleDeleteBatch_start:
  "deletes (handleDeleteBatch_start base ident confirmed st) =
     deletes st @ (if confirmed then [delete_request base ident] else [])"
  by (simp add: handleDeleteBatch_start_def deletes_fetch delete_request_def)

lemma deletes_step:
  "deletes (step base e st) = deletes st @ map (delete_request base) (confirmed_deletes [e])"
proof (cases e)
  case (DeleteBatchClicked ident confirmed)
  then show ?thesis by (simp add: deletes_handleDeleteBatch_start)
qed (simp_all add: deletes_loaded deletes_save deletes_dialog deletes_remaining
    deletes_mount_effect deletes_setters)

lemma confirmed_deletes_Cons:
  "confirmed_deletes (e # es) = confirmed_deletes [e] @ confirmed_deletes es"
  by (cases e) simp_all

lemma deletes_run:
  "deletes (run base es st) = deletes st @ map (delete_request base) (confirmed_deletes es)"
proof (induction es arbitrary: st)
  case Nil
  show ?case by simp
next
  case (Cons e es)
  have "deletes (run base (e # es) st) = deletes (step base e st) @
          map (delete_request base) (confirmed_deletes es)"
    by (simp add: Cons.IH)
  also have "\<dots> = deletes st @ map (delete_request base) (confirmed_deletes [e]) @
          map (delete_request base) (confirmed_deletes es)"
    by (simp add: deletes_step)
  also have "\<dots> = deletes st @ map (delete_request base) (confirmed_deletes (e # es))"
    by (simp add: confirmed_deletes_Cons [of e es])
  finally show ?case .
qed

text \<open>
  C6. When the confirmation is declined, deleting a batch leaves the state as it
  is and issues no request; when it is accepted, exactly one \<open>DELETE\<close> to the
  batch endpoint followed by the id is issued. So the delete handler issues a
  request only if the confirmation was accepted. Over any run of the page, the
  \<open>DELETE\<close> requests issued are exactly those of the delete clicks whose
  confirmation was accepted, in their order: no other event issues one.
\<close>

theorem C6_delete_only_after_confirmation:
  "handleDeleteBatch_start base ident False st = st \<and>
   requests (handleDeleteBatch_start base ident True st) =
     requests st @ [delete_request base ident] \<and>
   (requests (handleDeleteBatch_start base ident confirmed st) \<noteq> requests st \<longrightarrow> confirmed) \<and>
   deletes (run base es st) = deletes st @ map (delete_request base) (confirmed_deletes es)"
proof -
  have a: "handleDeleteBatch_start base ident False st = st"
    by (simp add: handleDeleteBatch_start_def)
  have b: "requests (handleDeleteBatch_start base ident True st) =
     requests st @ [delete_request base ident]"
    by (simp add: handleDeleteBatch_start_def fetch_def delete_request_def)
  have c: "requests (handleDeleteBatch_start base ident confirmed st) \<noteq> requests st \<longrightarrow> confirmed"
    by (simp add: handleDeleteBatch_start_def)
  from a b c deletes_run [of base es st] show ?thesis by simp
qed

theorem C6_delete_only_after_confirmation_witness:
  "requests (handleDeleteBatch_start localBase ''B1'' True initialState) =
     [\<lparr> req_method = DELETE, req_url = ''http://localhost:3001/api/batches/B1'',
        req_body = NoBody \<rparr>] \<and>
   requests (handleDeleteBatch_start localBase ''B1'' True initialState) \<noteq> requests initialState \<and>
   handleDeleteBatch_start localBase ''B1'' False initialState = initialState \<and>
   deletes (run localBase
     [Mounted, DeleteBatchClicked ''B2'' False, AddBatchClicked, FormSubmitted,
      DeleteBatchClicked ''B1'' True] initialState) =
     [\<lparr> req_method = DELETE, req_url = ''http://localhost:3001/api/batches/B1'',
        req_body = NoBody \<rparr>]"
proof -
  have b: "localBase = ''http://localhost:3001''" "requests initialState = []"
      "deletes initialState = []"
    by (simp_all add: localBase_def getApiBaseUrl_def initialState_def deletes_def)
  show ?thesis
    using C6_delete_only_after_confirmation
        [of localBase "''B1''" initialState True
          "[Mounted, DeleteBatchClicked ''B2'' False, AddBatchClicked, FormSubmitted,
            DeleteBatchClicked ''B1'' True]"]
    by (simp add: b delete_request_def)
qed

section \<open>Inline student creation\<close>

text \<open>
  C7 (as stated). A name that consists of one space is non-empty, and so is the
  admission number \<open>A1\<close>; the add button is enabled, yet the handler issues no
  request, because it tests the trimmed values.
\<close>

theorem C7_blank_name_counterexample:
  "newStudentName blankNameState \<noteq> [] \<and>
   newStudentAdmissionNumber blankNameState \<noteq> [] \<and>
   handleAddStudent_start localBase blankNameState = blankNameState \<and>
   requests (handleAddStudent_start localBase blankNameState) = []"
proof -
  have t: "trim '' '' = []"
    by (simp add: trim_def isWhiteSpace_def)
  have f: "newStudentName blankNameState = '' ''"
      "newStudentAdmissionNumber blankNameState = ''A1''" "requests blankNameState = []"
    by (simp_all add: blankNameState_def handleAddBatch_def initialState_def)
  show ?thesis
    by (simp add: handleAddStudent_start_def f t)
qed

text \<open>
  C7 (amended). Inline student creation issues one \<open>POST\<close> to the students
  endpoint, carrying the three fields as typed, exactly when the name and the
  admission number are both non-empty after trimming white space (the phone
  number plays no part); otherwise it issues nothing. With an empty name it
  changes nothing at all. When the \<open>POST\<close> succeeds the student list is
  fetched again and the three input fields are cleared.
\<close>

theorem C7_add_student:
  "requests (handleAddStudent_start base st) =
     (if trim (newStudentName st) \<noteq> [] \<and> trim (newStudentAdmissionNumber st) \<noteq> []
      then requests st @
        [\<lparr> req_method = POST, req_url = base @ ''/api/students'',
           req_body = StudentJson (newStudentName st) (newStudentAdmissionNumber st)
             (newStudentPhoneNumber st) \<rparr>]
      else requests st) \<and>
   (newStudentName st = [] \<longrightarrow> handleAddStudent_start base st = st) \<and>
   requests (handleAddStudent_resume base (Response True r) st) = requests st @
     [\<lparr> req_method = GET, req_url = base @ ''/api/students'', req_body = NoBody \<rparr>] \<and>
   newStudentName (handleAddStudent_resume base (Response True r) st) = [] \<and>
   newStudentAdmissionNumber (handleAddStudent_resume base (Response True r) st) = [] \<and>
   newStudentPhoneNumber (handleAddStudent_resume base (Response True r) st) = []"
proof -
  have a: "requests (handleAddStudent_start base st) =
     (if trim (newStudentName st) \<noteq> [] \<and> trim (newStudentAdmissionNumber st) \<noteq> []
      then requests st @
        [\<lparr> req_method = POST, req_url = base @ ''/api/students'',
           req_body = StudentJson (newStudentName st) (newStudentAdmissionNumber st)
             (newStudentPhoneNumber st) \<rparr>]
      else requests st)"
    by (simp add: handleAddStudent_start_def fetch_def)
  have b: "newStudentName st = [] \<longrightarrow> handleAddStudent_start base st = st"
    by (simp add: handleAddStudent_start_def trim_def)
  have c: "requests (handleAddStudent_resume base (Response True r) st) = requests st @
     [\<lparr> req_method = GET, req_url = base @ ''/api/students'', req_body = NoBody \<rparr>]"
    by (simp add: handleAddStudent_resume_def fetchAllStudents_start_def fetch_def)
  have d: "newStudentName (handleAddStudent_resume base (Response True r) st) = []"
      "newStudentAdmissionNumber (handleAddStudent_resume base (Response True r) st) = []"
      "newStudentPhoneNumber (handleAddStudent_resume base (Response True r) st) = []"
    by (simp_all add: handleAddStudent_resume_def)
  from a b c d show ?thesis by simp
qed

theorem C7_add_student_witness:
  "requests (handleAddStudent_start localBase annState) =
     [\<lparr> req_method = POST, req_url = ''http://localhost:3001/api/students'',
        req_body = StudentJson ''Ann'' ''A1'' [] \<rparr>] \<and>
   newStudentName initialState = [] \<and>
   handleAddStudent_start localBase initialState = initialState"
proof -
  have t: "trim ''Ann'' = ''Ann''" "trim ''A1'' = ''A1''"
    by (simp_all add: trim_def isWhiteSpace_def)
  have f: "newStudentName annState = ''Ann''" "newStudentAdmissionNumber annState = ''A1''"
      "newStudentPhoneNumber annState = []" "requests annState = []"
    by (simp_all add: annState_def handleAddBatch_def initialState_def)
  have b: "localBase = ''http://localhost:3001''" "newStudentName initialState = []"
    by (simp_all add: localBase_def getApiBaseUrl_def initialState_def)
  show ?thesis
    using C7_add_student [of localBase annState "Inl [] :: string + unit jsvalue"]
      C7_add_student [of localBase initialState "Inl [] :: string + unit jsvalue"]
    by (simp add: t f b)
qed

section \<open>Faculty and skill in the form\<close>

lemma find_by_id_distinct:
  "f \<in> set fs \<Longrightarrow> distinct (map fac_id fs) \<Longrightarrow> find (\<lambda>g. fac_id g = fac_id f) fs = Some f"
proof (induction fs)
  case Nil
  then show ?case by simp
next
  case (Cons g fs)
  show ?case
  proof (cases "g = f")
    case True
    then show ?thesis by simp
  next
    case False
    with Cons.prems have mem: "f \<in> set fs" and "fac_id g \<notin> fac_id ` set fs"
        and dist: "distinct (map fac_id fs)"
      by auto
    then have "fac_id g \<noteq> fac_id f" by auto
    with Cons.IH [OF mem dist] show ?thesis by simp
  qed
qed

lemma find_by_id_option:
  assumes "v \<in> set (facultyOptions fs)"
  shows "\<exists>f. find (\<lambda>g. fac_id g = v) fs = Some f \<and> f \<in> set fs \<and> fac_id f = v"
proof (cases "find (\<lambda>g. fac_id g = v) fs")
  case None
  with assms show ?thesis
    by (auto simp: find_None_iff facultyOptions_def)
next
  case (Some f)
  then have "f \<in> set fs \<and> fac_id f = v"
    by (auto simp: find_Some_iff)
  with Some show ?thesis by simp
qed

text \<open>
  C8. Choosing a faculty value in the form sets the faculty and empties the
  skill selection in one update of the form data, and changes nothing else,
  neither in the form nor in the rest of the state. Afterwards the skill
  options are the skills of the faculty carrying the chosen id: for every value
  the select offers there is such a faculty in the list, and where the ids of
  the list are distinct the options after choosing a faculty are exactly its
  own skills.
\<close>

theorem C8_faculty_change_resets_skill:
  "faculty_onValueChange v st =
     st\<lparr>formData := (formData st)\<lparr>facultyId := v, skillId := []\<rparr>\<rparr> \<and>
   skillId (formData (faculty_onValueChange v st)) = [] \<and>
   facultyId (formData (faculty_onValueChange v st)) = v \<and>
   (v \<in> set (facultyOptions fs) \<longrightarrow>
      (\<exists>f \<in> set fs. fac_id f = v \<and>
         availableSkills fs sks (formData (faculty_onValueChange v st)) = fac_skills f)) \<and>
   (f \<in> set fs \<and> distinct (map fac_id fs) \<longrightarrow>
      availableSkills fs sks (formData (faculty_onValueChange (fac_id f) st)) = fac_skills f)"
proof -
  have upd: "faculty_onValueChange v st =
     st\<lparr>formData := (formData st)\<lparr>facultyId := v, skillId := []\<rparr>\<rparr>"
    by (simp add: faculty_onValueChange_def)
  have fid: "facultyId (formData (faculty_onValueChange w st)) = w" for w
    by (simp add: faculty_onValueChange_def)
  have sid: "skillId (formData (faculty_onValueChange v st)) = []"
    by (simp add: faculty_onValueChange_def)
  have offered: "v \<in> set (facultyOptions fs) \<longrightarrow>
      (\<exists>f \<in> set fs. fac_id f = v \<and>
         availableSkills fs sks (formData (faculty_onValueChange v st)) = fac_skills f)"
  proof
    assume "v \<in> set (facultyOptions fs)"
    then obtain f where "find (\<lambda>g. fac_id g = v) fs = Some f" "f \<in> set fs" "fac_id f = v"
      using find_by_id_option by blast
    then show "\<exists>f \<in> set fs. fac_id f = v \<and>
         availableSkills fs sks (formData (faculty_onValueChange v st)) = fac_skills f"
      by (auto simp: availableSkills_def selectedFaculty_def fid)
  qed
  have own: "f \<in> set fs \<and> distinct (map fac_id fs) \<longrightarrow>
      availableSkills fs sks (formData (faculty_onValueChange (fac_id f) st)) = fac_skills f"
    by (simp add: availableSkills_def selectedFaculty_def fid find_by_id_distinct)
  from upd fid [of v] sid offered own show ?thesis by blast
qed

theorem C8_faculty_change_resets_skill_witness:
  "''F1'' \<in> set (facultyOptions [facultyF1]) \<and>
   facultyF1 \<in> set [facultyF1] \<and> distinct (map fac_id [facultyF1]) \<and>
   skillId (formData createDialogState) = ''Math-id'' \<and>
   skillId (formData (faculty_onValueChange ''F1'' createDialogState)) = [] \<and>
   availableSkills [facultyF1] [] (formData (faculty_onValueChange ''F1'' createDialogState))
     = [mathSkill]"
proof -
  have f: "fac_id facultyF1 = ''F1''" "fac_skills facultyF1 = [mathSkill]" "isActive facultyF1"
    by (simp_all add: facultyF1_def)
  have s: "skillId (formData createDialogState) = ''Math-id''"
    by (simp add: createDialogState_def algebraForm_def)
  show ?thesis
    using C8_faculty_change_resets_skill
        [of "''F1''" createDialogState "[facultyF1]" "[]" facultyF1, THEN conjunct2]
    by (simp add: f s facultyOptions_def)
qed

section \<open>Failures that are not notified\<close>

text \<open>
  C2 (as stated). The skills have been loaded; the next skills fetch fails with
  a network error. The list is not kept: the failure branch empties it.
\<close>

theorem C2_failed_skills_fetch_counterexample:
  "skills loadedSkillsState = [mathSkill] \<and>
   skills (fetchSkills_resume (Rejected ''Failed to fetch'') loadedSkillsState) = [] \<and>
   skills (fetchSkills_resume (Rejected ''Failed to fetch'') loadedSkillsState)
     \<noteq> skills loadedSkillsState"
  by (simp add: loadedSkillsState_def fetchSkills_resume_def console_error_def)

text \<open>
  C2 (amended). When fetching the batches or the faculties fails with an
  exception (the request is rejected or the response body cannot be parsed),
  and when deleting a batch or adding a student fails (the request is rejected
  or the status is not a success), the failure is written to the diagnostic log
  and nothing else of the state changes: no notification, no request, every
  slice as before. When fetching the skills fails with an exception, the failure
  is written to the log and the skills list is emptied; nothing else changes.
\<close>

theorem C2_silent_failures:
  "fetchBatches_resume (Rejected msg) st =
     st\<lparr>console := console st @ [''Error fetching batches:'']\<rparr> \<and>
   fetchBatches_resume (Response ok (Inl msg)) st =
     st\<lparr>console := console st @ [''Error fetching batches:'']\<rparr> \<and>
   fetchFaculties_resume (Rejected msg) st =
     st\<lparr>console := console st @ [''Error fetching faculties:'']\<rparr> \<and>
   fetchFaculties_resume (Response ok (Inl msg)) st =
     st\<lparr>console := console st @ [''Error fetching faculties:'']\<rparr> \<and>
   handleDeleteBatch_resume base (Rejected msg) st =
     st\<lparr>console := console st @ [''Error deleting batch:'']\<rparr> \<and>
   handleDeleteBatch_resume base (Response False r) st =
     st\<lparr>console := console st @ [''Failed to delete batch'']\<rparr> \<and>
   handleAddStudent_resume base (Rejected msg) st =
     st\<lparr>console := console st @ [''Error adding student:'']\<rparr> \<and>
   handleAddStudent_resume base (Response False r) st =
     st\<lparr>console := console st @ [''Failed to add student'']\<rparr> \<and>
   fetchSkills_resume (Rejected msg) st =
     st\<lparr>console := console st @ [''Error fetching skills:''], skills := []\<rparr> \<and>
   fetchSkills_resume (Response ok (Inl msg)) st =
     st\<lparr>console := console st @ [''Error fetching skills:''], skills := []\<rparr>"
  by (simp add: fetchBatches_resume_def fetchFaculties_resume_def handleDeleteBatch_resume_def
      handleAddStudent_resume_def fetchSkills_resume_def console_error_def)

end
